theory Spec2Isabelle
  imports Main
begin

section \<open>The JavaScript values the container handles\<close>

text \<open>
  The container of \<^verbatim>\<open>IOCContainer.ts\<close> is a class with four static maps. Its
  methods receive class constructors, resolver callbacks and origin objects from the
  caller; these are modelled by their identity, and what running them does is a
  parameter of the operation that runs them.
\<close>

datatype DependencyInjectionType = Singleton | Scoped | Transient

text \<open>A class constructor (\<^verbatim>\<open>Constructor<T>\<close>) and an object, each by reference identity.\<close>

datatype Constructor = Class nat

datatype object = Instance nat

text \<open>
  The heap records every evaluation of \<^verbatim>\<open>new C()\<close> so far, in order: the i-th
  evaluation allocated \<open>Instance i\<close>, of class \<open>heap ! i\<close>. An evaluation whose
  constructor body threw is recorded too (its object is held by nobody).
\<close>

type_synonym heap = "Constructor list"

text \<open>
  What caller code can throw: an error object with a \<^verbatim>\<open>name\<close> and a \<^verbatim>\<open>message\<close>,
  or \<^verbatim>\<open>null\<close>/\<^verbatim>\<open>undefined\<close>.
\<close>

datatype thrown = Error_object string string | Thrown_nullish

text \<open>
  What a container method can fail with: its own \<^verbatim>\<open>DependencyInjectionError\<close> (which
  carries a message and nothing else), the runtime's \<^verbatim>\<open>TypeError\<close>, or a value thrown by
  caller code that passes through untouched. A \<^verbatim>\<open>TypeError\<close> is tagged with what the
  runtime refused: the property it was asked to read from \<^verbatim>\<open>null\<close> or \<^verbatim>\<open>undefined\<close>, or
  the kind of value it was asked to convert to a string.
\<close>

datatype js_error =
    DependencyInjectionError string
  | TypeError string
  | Propagated thrown

datatype js_value = Undefined | Null | String string | Object object

text \<open>\<^verbatim>\<open>type Dependency = { injectionType; implementation }\<close>\<close>

record Dependency =
  injectionType :: DependencyInjectionType
  implementation :: Constructor

text \<open>A resolver callback registered for a scope, by identity.\<close>

datatype callback = Callback nat

text \<open>
  The origin of a dependency reference is typed \<^verbatim>\<open>any\<close>; the container only ever
  evaluates \<^verbatim>\<open>origin.constructor.name\<close> on it, uses the value as a key of the registry
  and prints it in a template literal. An origin is modelled by what these meet:
  \<^item> \<open>Nullish\<close>: the origin is \<^verbatim>\<open>null\<close> or \<^verbatim>\<open>undefined\<close>;
  \<^item> \<open>No_constructor\<close>: its \<^verbatim>\<open>constructor\<close> property is \<^verbatim>\<open>null\<close> or \<^verbatim>\<open>undefined\<close>
    (such as \<^verbatim>\<open>Object.create(null)\<close>);
  \<^item> \<open>Throwing_accessor e\<close>: reading \<^verbatim>\<open>constructor\<close> or \<^verbatim>\<open>name\<close> runs caller code (an
    accessor, a proxy trap) that throws \<open>e\<close>;
  \<^item> \<open>Constructed_by n\<close>: the read gives the string \<open>n\<close>, as for the prototype or an
    instance of a class named \<open>n\<close>;
  \<^item> \<open>Constructed_by_unnamed r\<close>: the read gives a value that is not a string, and \<open>r\<close>
    is what converting that value to a string does: the text it prints as (\<^verbatim>\<open>undefined\<close>
    prints as \<^verbatim>\<open>"undefined"\<close>), or the error raised (a \<^verbatim>\<open>TypeError\<close> for a
    \<^verbatim>\<open>Symbol\<close>, whatever a \<^verbatim>\<open>toString\<close> of the caller throws).

  Evaluating the expression again on the same origin is taken to meet the same thing.
\<close>

datatype origin =
    Nullish
  | No_constructor
  | Throwing_accessor thrown
  | Constructed_by string
  | Constructed_by_unnamed "js_error + string"

text \<open>The value of \<^verbatim>\<open>origin.constructor.name\<close> when the read completes.\<close>

datatype name_value = Name string | Not_a_string "js_error + string"

text \<open>
  The static fields of \<^verbatim>\<open>IOCContainer\<close>. The first three maps are only read by key;
  \<^verbatim>\<open>dependencyReferences\<close> is iterated, so it keeps its insertion order.
\<close>

record container =
  implementations :: "string \<rightharpoonup> Dependency"
  instances :: "Constructor \<rightharpoonup> object"
  scopes :: "js_value \<rightharpoonup> callback"
  dependencyReferences :: "(string \<times> origin) list"

definition empty_container :: container where
  "empty_container =
     \<lparr>implementations = Map.empty, instances = Map.empty, scopes = Map.empty,
      dependencyReferences = []\<rparr>"

section \<open>Running caller code\<close>

text \<open>
  \<^verbatim>\<open>new C()\<close>: allocates the next object and runs the constructor body, which either
  completes (\<open>None\<close>) or throws (\<open>Some e\<close>). The body is the caller's; what it does
  may depend on everything constructed before. Constructor bodies are taken not to call
  back into the container and not to return an object of their own in place of
  \<^verbatim>\<open>this\<close>.
\<close>

type_synonym bodies = "Constructor \<Rightarrow> heap \<Rightarrow> thrown option"

definition js_new :: "bodies \<Rightarrow> Constructor \<Rightarrow> heap \<Rightarrow> (thrown + object) \<times> heap" where
  "js_new body C h =
     (case body C h of
        Some e \<Rightarrow> (Inl e, h @ [C])
      | None \<Rightarrow> (Inr (Instance (length h)), h @ [C]))"

text \<open>
  \<^verbatim>\<open>error.message\<close> on a caught value: the message of an error object; reading a
  property of \<^verbatim>\<open>null\<close>/\<^verbatim>\<open>undefined\<close> raises a \<^verbatim>\<open>TypeError\<close>.
\<close>

fun message :: "thrown \<Rightarrow> js_error + string" where
  "message (Error_object n m) = Inr m"
| "message Thrown_nullish = Inl (TypeError ''message'')"

section \<open>Registry and resolver\<close>

text \<open>\<^verbatim>\<open>IOCContainer.register\<close>\<close>

definition register ::
  "string \<Rightarrow> DependencyInjectionType \<Rightarrow> Constructor \<Rightarrow> container \<Rightarrow> (js_error + unit) \<times> container"
where
  "register token injType impl c =
     (if implementations c token \<noteq> None
      then (Inl (DependencyInjectionError
                  (''There already is a class named '' @ token @ '' registered.'')), c)
      else (Inr (),
            c\<lparr>implementations :=
                (implementations c)(token \<mapsto> \<lparr>injectionType = injType, implementation = impl\<rparr>)\<rparr>))"

text \<open>
  The \<^verbatim>\<open>try\<close> block of \<^verbatim>\<open>resolve\<close>: if the cache has no entry for the implementation,
  construct one and store it. A throw leaves the cache as it was.
\<close>

definition materialize ::
  "bodies \<Rightarrow> Constructor \<Rightarrow> container \<Rightarrow> heap \<Rightarrow> (thrown + unit) \<times> container \<times> heap"
where
  "materialize body impl c h =
     (if instances c impl = None
      then (case js_new body impl h of
              (Inl e, h') \<Rightarrow> (Inl e, c, h')
            | (Inr obj, h') \<Rightarrow> (Inr (), c\<lparr>instances := (instances c)(impl \<mapsto> obj)\<rparr>, h'))
      else (Inr (), c, h))"

text \<open>The \<^verbatim>\<open>catch\<close> block of \<^verbatim>\<open>resolve\<close>.\<close>

definition creation_failure :: "string \<Rightarrow> thrown \<Rightarrow> js_error" where
  "creation_failure token error =
     (case message error of
        Inl type_error \<Rightarrow> type_error
      | Inr m \<Rightarrow> DependencyInjectionError
                  (''Failed to create an instance of '' @ token @ ''. '' @ m))"

text \<open>\<^verbatim>\<open>Map.prototype.get\<close> on the instance cache: \<^verbatim>\<open>undefined\<close> for a missing key.\<close>

definition instances_get :: "container \<Rightarrow> Constructor \<Rightarrow> js_value" where
  "instances_get c impl = (case instances c impl of None \<Rightarrow> Undefined | Some obj \<Rightarrow> Object obj)"

text \<open>\<^verbatim>\<open>IOCContainer.resolve\<close>\<close>

definition resolve ::
  "bodies \<Rightarrow> string \<Rightarrow> container \<Rightarrow> heap \<Rightarrow> (js_error + js_value) \<times> container \<times> heap"
where
  "resolve body token c h =
     (case implementations c token of
        None \<Rightarrow>
          (Inl (DependencyInjectionError
                 (''Class constructor for '' @ token @
                  '' not found. Did you forget to add the @Singleton decorator to the class?'')),
           c, h)
      | Some injection \<Rightarrow>
          if injectionType injection \<noteq> Singleton
          then (case js_new body (implementation injection) h of
                  (Inl e, h') \<Rightarrow> (Inl (Propagated e), c, h')
                | (Inr obj, h') \<Rightarrow> (Inr (Object obj), c, h'))
          else (case materialize body (implementation injection) c h of
                  (Inl error, c', h') \<Rightarrow> (Inl (creation_failure token error), c', h')
                | (Inr _, c', h') \<Rightarrow> (Inr (instances_get c' (implementation injection)), c', h')))"

text \<open>\<^verbatim>\<open>IOCContainer.getInjectionType\<close>: \<open>None\<close> is the \<^verbatim>\<open>null\<close> it returns.\<close>

definition getInjectionType :: "string \<Rightarrow> container \<Rightarrow> DependencyInjectionType option" where
  "getInjectionType token c =
     (case implementations c token of None \<Rightarrow> None | Some d \<Rightarrow> Some (injectionType d))"

section \<open>Scope table\<close>

text \<open>
  A resolver callback is the caller's code: it may return any value, throw, and call back
  into the container (the scope manager of the example registers further scopes and
  resolves from inside its callback). Running a callback is therefore a parameter that
  transforms the whole state.
\<close>

type_synonym callbacks =
  "callback \<Rightarrow> string \<Rightarrow> container \<Rightarrow> heap \<Rightarrow> (thrown + js_value) \<times> container \<times> heap"

text \<open>\<^verbatim>\<open>IOCContainer.registerScope\<close>\<close>

definition registerScope :: "js_value \<Rightarrow> callback \<Rightarrow> container \<Rightarrow> container" where
  "registerScope instance resolve_cb c = c\<lparr>scopes := (scopes c)(instance \<mapsto> resolve_cb)\<rparr>"

text \<open>\<^verbatim>\<open>IOCContainer.resolveScope\<close>\<close>

definition resolveScope ::
  "callbacks \<Rightarrow> js_value \<Rightarrow> string \<Rightarrow> container \<Rightarrow> heap \<Rightarrow> (js_error + js_value) \<times> container \<times> heap"
where
  "resolveScope run instance dependency c h =
     (case scopes c instance of
        None \<Rightarrow> (Inr Null, c, h)
      | Some resolve_cb \<Rightarrow>
          (case run resolve_cb dependency c h of
             (Inl e, c', h') \<Rightarrow> (Inl (Propagated e), c', h')
           | (Inr v, c', h') \<Rightarrow> (Inr v, c', h')))"

text \<open>\<^verbatim>\<open>IOCContainer.cleanScope\<close>: the loop deletes each listed key in turn.\<close>

fun cleanScope :: "js_value list \<Rightarrow> container \<Rightarrow> container" where
  "cleanScope [] c = c"
| "cleanScope (scope # rest) c = cleanScope rest (c\<lparr>scopes := (scopes c)(scope := None)\<rparr>)"

section \<open>Reference validator\<close>

text \<open>
  \<^verbatim>\<open>Map.prototype.set\<close> on an insertion-ordered map: an existing key keeps its position
  and takes the new value, a new key goes to the end.
\<close>

fun map_set :: "'k \<Rightarrow> 'v \<Rightarrow> ('k \<times> 'v) list \<Rightarrow> ('k \<times> 'v) list" where
  "map_set k v [] = [(k, v)]"
| "map_set k v ((k', v') # rest) =
     (if k' = k then (k, v) # rest else (k', v') # map_set k v rest)"

text \<open>\<^verbatim>\<open>IOCContainer.addDependencyReference\<close>\<close>

definition addDependencyReference :: "string \<Rightarrow> origin \<Rightarrow> container \<Rightarrow> container" where
  "addDependencyReference token orig c =
     c\<lparr>dependencyReferences := map_set token orig (dependencyReferences c)\<rparr>"

text \<open>Evaluating \<^verbatim>\<open>origin.constructor.name\<close>.\<close>

fun constructor_name :: "origin \<Rightarrow> js_error + name_value" where
  "constructor_name Nullish = Inl (TypeError ''constructor'')"
| "constructor_name No_constructor = Inl (TypeError ''name'')"
| "constructor_name (Throwing_accessor e) = Inl (Propagated e)"
| "constructor_name (Constructed_by n) = Inr (Name n)"
| "constructor_name (Constructed_by_unnamed r) = Inr (Not_a_string r)"

text \<open>
  A value inside a template literal: a string stands for itself, any other value is
  converted, which may raise.
\<close>

fun name_text :: "name_value \<Rightarrow> js_error + string" where
  "name_text (Name n) = Inr n"
| "name_text (Not_a_string r) = r"

text \<open>\<^verbatim>\<open>${origin.constructor.name}\<close>: the read, then the conversion.\<close>

definition origin_text :: "origin \<Rightarrow> js_error + string" where
  "origin_text orig =
     (case constructor_name orig of Inl e \<Rightarrow> Inl e | Inr name \<Rightarrow> name_text name)"

text \<open>
  \<^verbatim>\<open>this.implementations.get(origin.constructor.name)\<close>: the keys of the registry are
  the strings given to \<^verbatim>\<open>register\<close>, so a value that is not a string is no key.
\<close>

fun implementations_get :: "container \<Rightarrow> name_value \<Rightarrow> Dependency option" where
  "implementations_get c (Name n) = implementations c n"
| "implementations_get c (Not_a_string r) = None"

record DependencyResolutionResult =
  valid :: bool
  errors :: "string list"

text \<open>
  The \<^verbatim>\<open>for\<close> loop of \<^verbatim>\<open>testDependencyReferences\<close> over the remaining entries, with
  the two local variables \<^verbatim>\<open>valid\<close> and \<^verbatim>\<open>errors\<close>. An error raised while
  evaluating or printing \<^verbatim>\<open>origin.constructor.name\<close> leaves the method. For a scoped
  dependency the expression is evaluated for the lookup and once more for the message.
\<close>

fun check_references ::
  "container \<Rightarrow> (string \<times> origin) list \<Rightarrow> bool \<Rightarrow> string list \<Rightarrow> js_error + DependencyResolutionResult"
where
  "check_references c [] is_valid errs = Inr \<lparr>valid = is_valid, errors = errs\<rparr>"
| "check_references c ((token, orig) # rest) is_valid errs =
     (case implementations c token of
        None \<Rightarrow>
          (case origin_text orig of
             Inl e \<Rightarrow> Inl e
           | Inr n \<Rightarrow>
               check_references c rest False
                 (errs @ [n @ '': The dependency '' @ token @ '' is not registered'']))
      | Some dependency \<Rightarrow>
          if injectionType dependency = Scoped
          then (case constructor_name orig of
                  Inl e \<Rightarrow> Inl e
                | Inr name \<Rightarrow>
                    (case implementations_get c name of
                       None \<Rightarrow> check_references c rest is_valid errs
                     | Some originDependency \<Rightarrow>
                         if injectionType originDependency \<noteq> Scoped
                         then (case origin_text orig of
                                 Inl e \<Rightarrow> Inl e
                               | Inr n \<Rightarrow>
                                   check_references c rest False
                                     (errs @ [n @ '': The scoped dependency '' @ token @
                                              '' cannot be resolved from a non-scoped class'']))
                         else check_references c rest is_valid errs))
          else check_references c rest is_valid errs)"

text \<open>\<^verbatim>\<open>IOCContainer.testDependencyReferences\<close>\<close>

definition testDependencyReferences :: "container \<Rightarrow> js_error + DependencyResolutionResult" where
  "testDependencyReferences c = check_references c (dependencyReferences c) True []"

text \<open>
  The rule of the specification for one recorded pair whose origin has a name: the list
  of findings (none or one) that the pair contributes.
\<close>

definition spec_findings :: "container \<Rightarrow> string \<times> string \<Rightarrow> string list" where
  "spec_findings c p =
     (case p of (token, origin_name) \<Rightarrow>
        if getInjectionType token c = None
        then [origin_name @ '': The dependency '' @ token @ '' is not registered'']
        else if getInjectionType token c = Some Scoped
                \<and> getInjectionType origin_name c \<noteq> None
                \<and> getInjectionType origin_name c \<noteq> Some Scoped
        then [origin_name @ '': The scoped dependency '' @ token @
              '' cannot be resolved from a non-scoped class'']
        else [])"

section \<open>Example containers\<close>

text \<open>A registry holding the singleton class \<^verbatim>\<open>Db\<close>, as \<^verbatim>\<open>@Singleton\<close> leaves it.\<close>

definition db_registry :: container where
  "db_registry = snd (register ''Db'' Singleton (Class 0) empty_container)"




text \<open>The example application: one singleton, one transient and one scoped class.\<close>

definition app_registry :: container where
  "app_registry =
     snd (register ''UserContainer'' Scoped (Class 2)
       (snd (register ''UserRepository'' Transient (Class 1) db_registry)))"

text \<open>Constructor bodies that all complete normally, and bodies that all throw one value.\<close>

definition plain_bodies :: bodies where
  "plain_bodies = (\<lambda>C h. None)"

definition failing_bodies :: "thrown \<Rightarrow> bodies" where
  "failing_bodies e = (\<lambda>C h. Some e)"

text \<open>
  Two resolver callbacks: the first answers every token with object 7, the second throws.
  Neither touches the state.
\<close>

definition two_callbacks :: callbacks where
  "two_callbacks cb dependency c h =
     (if cb = Callback 0 then (Inr (Object (Instance 7)), c, h)
      else (Inl (Error_object ''Error'' ''wrong scope''), c, h))"

text \<open>A callback table that differs from \<open>two_callbacks\<close> only away from \<open>Callback 0\<close>.\<close>

definition other_callbacks :: callbacks where
  "other_callbacks cb dependency c h =
     (if cb = Callback 0 then (Inr (Object (Instance 7)), c, h)
      else (Inr Undefined, c, h))"

text \<open>Two scope owners, objects 1 and 2, registered with the first and the second callback.\<close>

definition two_scopes :: container where
  "two_scopes =
     registerScope (Object (Instance 2)) (Callback 1)
       (registerScope (Object (Instance 1)) (Callback 0) empty_container)"

text \<open>
  Reference tables: a singleton and a scoped class referenced from a transient consumer,
  an unregistered token and a transient class referenced from an unregistered origin; a
  singleton referenced from \<^verbatim>\<open>null\<close>, an unregistered token referenced from an origin
  whose constructor's name is \<^verbatim>\<open>undefined\<close> and a scoped class referenced from an origin
  whose constructor's name is a \<^verbatim>\<open>Symbol\<close>; an unregistered token referenced from
  \<^verbatim>\<open>null\<close>.
\<close>

definition crossing_references :: container where
  "crossing_references =
     addDependencyReference ''UserRepository'' (Constructed_by ''Widget'')
      (addDependencyReference ''Foo'' (Constructed_by ''Widget'')
       (addDependencyReference ''UserContainer'' (Constructed_by ''UserRepository'')
         (addDependencyReference ''Db'' (Constructed_by ''UserRepository'') app_registry)))"



section \<open>Registration\<close>

text \<open>
  Claim C2. \<^verbatim>\<open>register\<close> on a token that is already present fails with the
  \<^verbatim>\<open>DependencyInjectionError\<close> that names the token as already registered, and leaves the
  container exactly as it was: the first registration is still the one stored, and every
  later \<^verbatim>\<open>resolve\<close> behaves as it did before the rejected call. On an absent token
  \<^verbatim>\<open>register\<close> succeeds and stores the registration under the token.
\<close>

theorem register_duplicate_rejected:
  "(implementations c token \<noteq> None \<longrightarrow>
      register token injType impl c =
        (Inl (DependencyInjectionError
               (''There already is a class named '' @ token @ '' registered.'')), c)
      \<and> implementations (snd (register token injType impl c)) token = implementations c token
      \<and> (\<forall>body t h. resolve body t (snd (register token injType impl c)) h = resolve body t c h))
   \<and> (implementations c token = None \<longrightarrow>
      register token injType impl c =
        (Inr (),
         c\<lparr>implementations :=
             (implementations c)(token \<mapsto> \<lparr>injectionType = injType, implementation = impl\<rparr>)\<rparr>)
      \<and> implementations (snd (register token injType impl c)) token =
          Some \<lparr>injectionType = injType, implementation = impl\<rparr>)"
  by (simp add: register_def)

theorem register_duplicate_rejected_witness:
  "implementations db_registry ''Db'' = Some \<lparr>injectionType = Singleton, implementation = Class 0\<rparr>
   \<and> register ''Db'' Transient (Class 1) db_registry =
       (Inl (DependencyInjectionError ''There already is a class named Db registered.''), db_registry)
   \<and> fst (resolve plain_bodies ''Db'' (snd (register ''Db'' Transient (Class 1) db_registry)) []) =
       Inr (Object (Instance 0))
   \<and> implementations empty_container ''Db'' = None
   \<and> fst (register ''Db'' Singleton (Class 0) empty_container) = Inr ()"
  using register_duplicate_rejected [of db_registry "''Db''" Transient "Class 1"]
    register_duplicate_rejected [of empty_container "''Db''" Singleton "Class 0"]
  by (simp add: db_registry_def empty_container_def register_def resolve_def materialize_def
      js_new_def instances_get_def plain_bodies_def)

section \<open>Unregistered tokens\<close>

text \<open>
  Claim C4. For a token with no registration, \<^verbatim>\<open>resolve\<close> fails with the
  \<^verbatim>\<open>DependencyInjectionError\<close> whose message names the token and asks whether the class
  decorator (the registration step) was forgotten, leaving the state untouched, while
  \<^verbatim>\<open>getInjectionType\<close> returns \<^verbatim>\<open>null\<close> and does not fail.
\<close>

theorem resolve_unregistered:
  "implementations c token = None \<Longrightarrow>
     resolve body token c h =
       (Inl (DependencyInjectionError
              (''Class constructor for '' @ token @
               '' not found. Did you forget to add the @Singleton decorator to the class?'')),
        c, h)
     \<and> getInjectionType token c = None"
  by (simp add: resolve_def getInjectionType_def)

theorem resolve_unregistered_witness:
  "implementations empty_container ''Ghost'' = None
   \<and> resolve plain_bodies ''Ghost'' empty_container [] =
       (Inl (DependencyInjectionError
              ''Class constructor for Ghost not found. Did you forget to add the @Singleton decorator to the class?''),
        empty_container, [])
   \<and> getInjectionType ''Ghost'' empty_container = None"
proof -
  have absent: "implementations empty_container ''Ghost'' = None"
    by (simp add: empty_container_def)
  show ?thesis
    using absent resolve_unregistered [OF absent, of plain_bodies "[]"] by simp
qed

section \<open>The singleton path\<close>




lemma db_registry_Db:
  "implementations db_registry ''Db'' = Some \<lparr>injectionType = Singleton, implementation = Class 0\<rparr>"
  by (simp add: db_registry_def register_def empty_container_def)




section \<open>Tokens sharing one implementation\<close>






section \<open>The transient and scoped path\<close>

lemma resolve_not_singleton:
  "implementations c token = Some d \<Longrightarrow> injectionType d \<noteq> Singleton \<Longrightarrow>
   resolve body token c h =
     (case body (implementation d) h of
        Some e \<Rightarrow> Inl (Propagated e)
      | None \<Rightarrow> Inr (Object (Instance (length h))),
      c, h @ [implementation d])"
  by (simp add: resolve_def js_new_def split: option.splits)

lemma app_registry_UserRepository:
  "implementations app_registry ''UserRepository'' =
     Some \<lparr>injectionType = Transient, implementation = Class 1\<rparr>"
  by (simp add: app_registry_def db_registry_def register_def empty_container_def)

lemma app_registry_UserContainer:
  "implementations app_registry ''UserContainer'' =
     Some \<lparr>injectionType = Scoped, implementation = Class 2\<rparr>"
  by (simp add: app_registry_def db_registry_def register_def empty_container_def)

text \<open>
  Claim C3. For a token registered \<^verbatim>\<open>Transient\<close> or \<^verbatim>\<open>Scoped\<close>, every \<^verbatim>\<open>resolve\<close>
  constructs the class once and stores nothing in the container. An instance it returns is
  the object allocated by that very call, different from every object that existed before,
  so two sequential calls that both return give two different objects. The outcome is the
  same whichever of the two lifecycles the token is registered with.
\<close>

theorem transient_and_scoped_fresh:
  assumes "implementations c token = Some d"
    and "injectionType d = Transient \<or> injectionType d = Scoped"
    and "resolve body token c h = (r1, c1, h1)"
    and "resolve body token c1 h1 = (r2, c2, h2)"
  shows "c1 = c \<and> c2 = c
         \<and> h1 = h @ [implementation d] \<and> h2 = h1 @ [implementation d]
         \<and> (\<forall>v. r1 = Inr v \<longrightarrow> v = Object (Instance (length h))
                \<and> (\<forall>i<length h. v \<noteq> Object (Instance i)))
         \<and> (\<forall>v1 v2. r1 = Inr v1 \<and> r2 = Inr v2 \<longrightarrow> v1 \<noteq> v2)
         \<and> (\<forall>c' d'. implementations c' token = Some d'
                \<and> (injectionType d' = Transient \<or> injectionType d' = Scoped)
                \<and> implementation d' = implementation d \<longrightarrow>
                resolve body token c' h = (r1, c', h1))"
proof -
  from assms(2) have ns: "injectionType d \<noteq> Singleton" by auto
  note first = resolve_not_singleton [OF assms(1) ns, of body h]
  with assms(3) have c1: "c1 = c" and h1: "h1 = h @ [implementation d]"
    and r1: "r1 = (case body (implementation d) h of
                     Some e \<Rightarrow> Inl (Propagated e)
                   | None \<Rightarrow> Inr (Object (Instance (length h))))"
    by simp_all
  from assms(1) c1 have reg1: "implementations c1 token = Some d" by simp
  note second = resolve_not_singleton [OF reg1 ns, of body h1]
  with assms(4) have c2: "c2 = c1" and h2: "h2 = h1 @ [implementation d]"
    and r2: "r2 = (case body (implementation d) h1 of
                     Some e \<Rightarrow> Inl (Propagated e)
                   | None \<Rightarrow> Inr (Object (Instance (length h1))))"
    by simp_all
  have fresh: "\<forall>v. r1 = Inr v \<longrightarrow> v = Object (Instance (length h))
                \<and> (\<forall>i<length h. v \<noteq> Object (Instance i))"
    using r1 by (auto split: option.splits)
  have different: "\<forall>v1 v2. r1 = Inr v1 \<and> r2 = Inr v2 \<longrightarrow> v1 \<noteq> v2"
    using r1 r2 h1 by (auto split: option.splits)
  have alike: "\<forall>c' d'. implementations c' token = Some d'
                \<and> (injectionType d' = Transient \<or> injectionType d' = Scoped)
                \<and> implementation d' = implementation d \<longrightarrow>
                resolve body token c' h = (r1, c', h1)"
  proof (intro allI impI)
    fix c' :: container and d' :: Dependency
    assume a: "implementations c' token = Some d'
                \<and> (injectionType d' = Transient \<or> injectionType d' = Scoped)
                \<and> implementation d' = implementation d"
    then have "injectionType d' \<noteq> Singleton" by auto
    from resolve_not_singleton [OF _ this, of c' token body h] a r1 h1
    show "resolve body token c' h = (r1, c', h1)" by simp
  qed
  from c1 c2 h1 h2 fresh different alike show ?thesis by simp
qed

theorem transient_and_scoped_fresh_witness:
  "implementations app_registry ''UserRepository'' =
     Some \<lparr>injectionType = Transient, implementation = Class 1\<rparr>
   \<and> resolve plain_bodies ''UserRepository'' app_registry [Class 0] =
       (Inr (Object (Instance 1)), app_registry, [Class 0, Class 1])
   \<and> resolve plain_bodies ''UserRepository'' app_registry [Class 0, Class 1] =
       (Inr (Object (Instance 2)), app_registry, [Class 0, Class 1, Class 1])
   \<and> Object (Instance 1) \<noteq> Object (Instance 0)
   \<and> Object (Instance 1) \<noteq> Object (Instance 2)
   \<and> implementations (snd (register ''UserRepository'' Scoped (Class 1) db_registry))
        ''UserRepository'' = Some \<lparr>injectionType = Scoped, implementation = Class 1\<rparr>
   \<and> resolve plain_bodies ''UserRepository''
        (snd (register ''UserRepository'' Scoped (Class 1) db_registry)) [Class 0] =
       (Inr (Object (Instance 1)),
        snd (register ''UserRepository'' Scoped (Class 1) db_registry), [Class 0, Class 1])"
proof -
  have first: "resolve plain_bodies ''UserRepository'' app_registry [Class 0] =
       (Inr (Object (Instance 1)), app_registry, [Class 0, Class 1])"
    by (simp add: resolve_not_singleton [OF app_registry_UserRepository] plain_bodies_def)
  have second: "resolve plain_bodies ''UserRepository'' app_registry [Class 0, Class 1] =
       (Inr (Object (Instance 2)), app_registry, [Class 0, Class 1, Class 1])"
    by (simp add: resolve_not_singleton [OF app_registry_UserRepository] plain_bodies_def)
  have scoped: "implementations (snd (register ''UserRepository'' Scoped (Class 1) db_registry))
        ''UserRepository'' = Some \<lparr>injectionType = Scoped, implementation = Class 1\<rparr>"
    by (simp add: db_registry_def register_def empty_container_def)
  from transient_and_scoped_fresh [OF app_registry_UserRepository _ first second] scoped
  have "resolve plain_bodies ''UserRepository''
        (snd (register ''UserRepository'' Scoped (Class 1) db_registry)) [Class 0] =
       (Inr (Object (Instance 1)),
        snd (register ''UserRepository'' Scoped (Class 1) db_registry), [Class 0, Class 1])"
    by simp
  with app_registry_UserRepository first second scoped show ?thesis by simp
qed

text \<open>
  Claim C10. For a token registered \<^verbatim>\<open>Transient\<close> or \<^verbatim>\<open>Scoped\<close> whose constructor throws,
  \<^verbatim>\<open>resolve\<close> fails with exactly the thrown value: it is not the error that the
  \<^verbatim>\<open>catch\<close> block of the singleton path would build from it. The container is left as it
  was; only the heap has seen the attempted construction.
\<close>

theorem transient_failure_propagates:
  assumes "implementations c token = Some d"
    and "injectionType d = Transient \<or> injectionType d = Scoped"
    and "body (implementation d) h = Some e"
  shows "resolve body token c h = (Inl (Propagated e), c, h @ [implementation d])
         \<and> fst (resolve body token c h) \<noteq> Inl (creation_failure token e)"
proof -
  from assms(2) have ns: "injectionType d \<noteq> Singleton" by auto
  from resolve_not_singleton [OF assms(1) ns, of body h] assms(3)
  have "resolve body token c h = (Inl (Propagated e), c, h @ [implementation d])" by simp
  moreover have "Propagated e \<noteq> creation_failure token e"
    by (cases e) (simp_all add: creation_failure_def)
  ultimately show ?thesis by simp
qed

theorem transient_failure_propagates_witness:
  "implementations app_registry ''UserContainer'' =
     Some \<lparr>injectionType = Scoped, implementation = Class 2\<rparr>
   \<and> failing_bodies (Error_object ''Error'' ''no database'') (Class 2) [] =
       Some (Error_object ''Error'' ''no database'')
   \<and> resolve (failing_bodies (Error_object ''Error'' ''no database'')) ''UserContainer''
        app_registry [] =
       (Inl (Propagated (Error_object ''Error'' ''no database'')), app_registry, [Class 2])
   \<and> creation_failure ''UserContainer'' (Error_object ''Error'' ''no database'') =
       DependencyInjectionError ''Failed to create an instance of UserContainer. no database''"
proof -
  have throws: "failing_bodies (Error_object ''Error'' ''no database'')
                  (implementation \<lparr>injectionType = Scoped, implementation = Class 2\<rparr>) [] =
                Some (Error_object ''Error'' ''no database'')"
    by (simp add: failing_bodies_def)
  from transient_failure_propagates
    [where body = "failing_bodies (Error_object ''Error'' ''no database'')" and h = "[]",
     OF app_registry_UserContainer _ throws]
  show ?thesis
    using app_registry_UserContainer throws by (simp add: creation_failure_def)
qed

section \<open>A singleton whose construction fails\<close>

text \<open>
  The error built by the \<^verbatim>\<open>catch\<close> block holds the message text of what was caught and
  nothing else of it: two constructors that throw different errors with the same message make
  \<^verbatim>\<open>resolve\<close> fail with one and the same error, from which the original cannot be told.
\<close>

theorem singleton_failure_cause_lost:
  "fst (resolve (failing_bodies (Error_object ''RangeError'' ''boom'')) ''Db'' db_registry []) =
     Inl (DependencyInjectionError ''Failed to create an instance of Db. boom'')
   \<and> fst (resolve (failing_bodies (Error_object ''SyntaxError'' ''boom'')) ''Db'' db_registry []) =
     Inl (DependencyInjectionError ''Failed to create an instance of Db. boom'')
   \<and> Error_object ''RangeError'' ''boom'' \<noteq> Error_object ''SyntaxError'' ''boom''"
  by (simp add: resolve_def materialize_def js_new_def creation_failure_def failing_bodies_def
      db_registry_def register_def empty_container_def)

text \<open>
  Claim C5, as amended. For a token registered \<^verbatim>\<open>Singleton\<close> whose instance is not cached
  yet and whose constructor throws an error object, \<^verbatim>\<open>resolve\<close> fails with a
  \<^verbatim>\<open>DependencyInjectionError\<close> whose message names the token and ends with the message text
  of the thrown error; the thrown error itself is not carried along. The cache stays empty.
\<close>

theorem singleton_failure_wrapped:
  assumes "implementations c token = Some d" and "injectionType d = Singleton"
    and "instances c (implementation d) = None"
    and "body (implementation d) h = Some (Error_object n m)"
  shows "resolve body token c h =
           (Inl (DependencyInjectionError
                  (''Failed to create an instance of '' @ token @ ''. '' @ m)),
            c, h @ [implementation d])"
  using assms by (simp add: resolve_def materialize_def js_new_def creation_failure_def)

theorem singleton_failure_wrapped_witness:
  "implementations db_registry ''Db'' = Some \<lparr>injectionType = Singleton, implementation = Class 0\<rparr>
   \<and> instances db_registry (Class 0) = None
   \<and> failing_bodies (Error_object ''Error'' ''connection refused'') (Class 0) [] =
       Some (Error_object ''Error'' ''connection refused'')
   \<and> resolve (failing_bodies (Error_object ''Error'' ''connection refused'')) ''Db'' db_registry [] =
       (Inl (DependencyInjectionError
              ''Failed to create an instance of Db. connection refused''),
        db_registry, [Class 0])"
proof -
  have empty_slot: "instances db_registry
                      (implementation \<lparr>injectionType = Singleton, implementation = Class 0\<rparr>) = None"
    by (simp add: db_registry_def register_def empty_container_def)
  have throws: "failing_bodies (Error_object ''Error'' ''connection refused'')
                  (implementation \<lparr>injectionType = Singleton, implementation = Class 0\<rparr>) [] =
                Some (Error_object ''Error'' ''connection refused'')"
    by (simp add: failing_bodies_def)
  from singleton_failure_wrapped
    [where body = "failing_bodies (Error_object ''Error'' ''connection refused'')" and h = "[]",
     OF db_registry_Db _ empty_slot throws]
  show ?thesis using db_registry_Db empty_slot throws by simp
qed

section \<open>Scopes\<close>

text \<open>
  Claim C7. After scope owner \<open>A\<close> is registered with callback \<open>rA\<close> and a different
  owner \<open>B\<close> with \<open>rB\<close>, \<^verbatim>\<open>resolveScope(A, token)\<close> is one run of \<open>rA\<close> on the token:
  a value it returns is returned as it is, a value it throws is thrown on, and what any
  other callback (such as \<open>rB\<close>) would do has no influence. For an owner without a
  callback \<^verbatim>\<open>resolveScope\<close> returns \<^verbatim>\<open>null\<close> and changes nothing, and so it does for
  \<open>A\<close> after \<^verbatim>\<open>cleanScope([A])\<close>.
\<close>

theorem scope_isolation:
  assumes "A \<noteq> B"
  shows "(\<forall>v c' h'. run rA token (registerScope B rB (registerScope A rA c)) h = (Inr v, c', h') \<longrightarrow>
            resolveScope run A token (registerScope B rB (registerScope A rA c)) h = (Inr v, c', h'))
       \<and> (\<forall>e c' h'. run rA token (registerScope B rB (registerScope A rA c)) h = (Inl e, c', h') \<longrightarrow>
            resolveScope run A token (registerScope B rB (registerScope A rA c)) h =
              (Inl (Propagated e), c', h'))
       \<and> (\<forall>run'. run' rA = run rA \<longrightarrow>
            resolveScope run' A token (registerScope B rB (registerScope A rA c)) h =
            resolveScope run A token (registerScope B rB (registerScope A rA c)) h)
       \<and> (\<forall>X. scopes c X = None \<longrightarrow> resolveScope run X token c h = (Inr Null, c, h))
       \<and> resolveScope run A token (cleanScope [A] (registerScope B rB (registerScope A rA c))) h =
            (Inr Null, cleanScope [A] (registerScope B rB (registerScope A rA c)), h)"
  using assms by (simp add: resolveScope_def registerScope_def)

theorem scope_isolation_witness:
  "Object (Instance 1) \<noteq> Object (Instance 2)
   \<and> resolveScope two_callbacks (Object (Instance 1)) ''X'' two_scopes [] =
       (Inr (Object (Instance 7)), two_scopes, [])
   \<and> other_callbacks (Callback 0) = two_callbacks (Callback 0)
   \<and> resolveScope other_callbacks (Object (Instance 1)) ''X'' two_scopes [] =
       (Inr (Object (Instance 7)), two_scopes, [])
   \<and> resolveScope two_callbacks (Object (Instance 2)) ''X'' two_scopes [] =
       (Inl (Propagated (Error_object ''Error'' ''wrong scope'')), two_scopes, [])
   \<and> scopes empty_container (Object (Instance 1)) = None
   \<and> resolveScope two_callbacks (Object (Instance 1)) ''X'' empty_container [] =
       (Inr Null, empty_container, [])
   \<and> resolveScope two_callbacks (Object (Instance 1)) ''X''
        (cleanScope [Object (Instance 1)] two_scopes) [] =
       (Inr Null, cleanScope [Object (Instance 1)] two_scopes, [])"
proof -
  have owners: "Object (Instance 1) \<noteq> Object (Instance 2)" by simp
  have agree: "other_callbacks (Callback 0) = two_callbacks (Callback 0)"
    by (intro ext) (simp add: other_callbacks_def two_callbacks_def)
  have answers: "two_callbacks (Callback 0) ''X'' two_scopes [] =
                   (Inr (Object (Instance 7)), two_scopes, [])"
    by (simp add: two_callbacks_def)
  have no_scope: "scopes empty_container (Object (Instance 1)) = None"
    by (simp add: empty_container_def)
  have throws: "resolveScope two_callbacks (Object (Instance 2)) ''X'' two_scopes [] =
       (Inl (Propagated (Error_object ''Error'' ''wrong scope'')), two_scopes, [])"
    by (simp add: resolveScope_def two_scopes_def registerScope_def two_callbacks_def)
  from scope_isolation
    [OF owners, of two_callbacks "Callback 0" "''X''" "Callback 1" empty_container "[]"]
  show ?thesis
    using owners agree answers no_scope throws by (simp add: two_scopes_def)
qed

section \<open>Validating the recorded references\<close>

lemma check_references_named:
  "check_references c (map (\<lambda>(token, n). (token, Constructed_by n)) refs) v errs =
     Inr \<lparr>valid = (v \<and> concat (map (spec_findings c) refs) = []),
          errors = errs @ concat (map (spec_findings c) refs)\<rparr>"
proof (induction refs arbitrary: v errs)
  case Nil
  show ?case by simp
next
  case (Cons p refs)
  obtain token n where p: "p = (token, n)" by (cases p)
  show ?case
    unfolding p
    by (simp add: Cons.IH spec_findings_def getInjectionType_def origin_text_def
        split: option.splits)
qed


text \<open>
  Origins on which the loop raises for an unregistered token: a constructor without a
  \<^verbatim>\<open>name\<close> to read, a name that is a \<^verbatim>\<open>Symbol\<close>, an accessor that throws.
\<close>

lemma check_references_raising_origins:
  "check_references empty_container [(''Foo'', No_constructor)] True [] =
     Inl (TypeError ''name'')"
  "check_references empty_container
     [(''Foo'', Constructed_by_unnamed (Inl (TypeError ''Symbol'')))] True [] =
     Inl (TypeError ''Symbol'')"
  "check_references empty_container
     [(''Foo'', Throwing_accessor (Error_object ''RangeError'' ''no name''))] True [] =
     Inl (Propagated (Error_object ''RangeError'' ''no name''))"
  by (simp_all add: empty_container_def origin_text_def)

text \<open>
  Claim C6. When every recorded origin is a value whose constructor has a name,
  \<^verbatim>\<open>testDependencyReferences\<close> returns \<open>{valid, errors}\<close> where \<open>errors\<close> lists, in the
  order of the reference table, what each recorded pair contributes by the rule of the
  specification (\<open>spec_findings\<close>): the "is not registered" message naming origin and token
  for an unregistered token; the scope-crossing message naming origin and token for a
  \<^verbatim>\<open>Scoped\<close> token whose origin's name is itself registered with a lifecycle other than
  \<^verbatim>\<open>Scoped\<close>; nothing otherwise, in particular nothing when the origin's name is not
  registered. \<open>valid\<close> is true exactly when \<open>errors\<close> is empty.
\<close>

theorem testDependencyReferences_findings:
  assumes "dependencyReferences c = map (\<lambda>(token, n). (token, Constructed_by n)) refs"
  shows "testDependencyReferences c =
           Inr \<lparr>valid = (concat (map (spec_findings c) refs) = []),
                errors = concat (map (spec_findings c) refs)\<rparr>"
  unfolding testDependencyReferences_def assms
  by (simp add: check_references_named)

theorem testDependencyReferences_findings_witness:
  "dependencyReferences crossing_references =
     map (\<lambda>(token, n). (token, Constructed_by n))
       [(''Db'', ''UserRepository''), (''UserContainer'', ''UserRepository''),
        (''Foo'', ''Widget''), (''UserRepository'', ''Widget'')]
   \<and> testDependencyReferences crossing_references =
       Inr \<lparr>valid = False,
            errors =
              [''UserRepository: The scoped dependency UserContainer cannot be resolved from a non-scoped class'',
               ''Widget: The dependency Foo is not registered'']\<rparr>"
proof -
  have table: "dependencyReferences crossing_references =
     map (\<lambda>(token, n). (token, Constructed_by n))
       [(''Db'', ''UserRepository''), (''UserContainer'', ''UserRepository''),
        (''Foo'', ''Widget''), (''UserRepository'', ''Widget'')]"
    by (simp add: crossing_references_def addDependencyReference_def app_registry_def
        db_registry_def register_def empty_container_def)
  have registry: "implementations crossing_references = implementations app_registry"
    by (simp add: crossing_references_def addDependencyReference_def)
  from testDependencyReferences_findings [OF table]
  show ?thesis
    using table
    by (simp add: spec_findings_def getInjectionType_def registry app_registry_def
        db_registry_def register_def empty_container_def)
qed




end
